theory Spec2Isabelle
  imports Complex_Main "HOL-Library.Code_Target_Numeral"
begin

section \<open>Values, exceptions and strings\<close>

text \<open>
  The two scripts \<^verbatim>\<open>apple_stock_analysis.py\<close> and \<^verbatim>\<open>apple_stock_data.py\<close> work on a
  pandas DataFrame. A cell of a frame is a float64 number, the missing marker NaN, an
  int64 number or a calendar day (an ordinal day number, 1 for 0001-01-01). A float64
  number is the rational it denotes. Sums and quotients of such numbers are the exact
  ones: the rounding of float arithmetic is not part of the model, and the theorems
  below are about which entries are numbers and which are NaN, about lengths, columns,
  files and exit statuses, not about the digits of an average.
\<close>

type_synonym date = int

datatype cell = Num rat | NaN | Int64 int | Day date

text \<open>The exceptions that the library calls of the scripts raise, with their argument.\<close>

datatype exn =
    ValueError string
  | KeyError string
  | DataError string
  | OSError string
  | OverflowError string

text \<open>
  \<^verbatim>\<open>repr\<close> of a string of ASCII text. The string stands between single quotes, or
  between double quotes when it holds a single quote and no double one. Inside, the
  quote in use and the backslash get a backslash in front, tab, newline and carriage
  return are written \<^verbatim>\<open>\t\<close>, \<^verbatim>\<open>\n\<close>, \<^verbatim>\<open>\r\<close>, and every other control character is
  written \<^verbatim>\<open>\xhh\<close> with two hexadecimal digits.
\<close>

definition hex_digit :: "nat \<Rightarrow> char" where
  "hex_digit d = ''0123456789abcdef'' ! d"

definition repr_char :: "char \<Rightarrow> char \<Rightarrow> string" where
  "repr_char quote c =
     (if c = quote \<or> c = CHR 0x5C then [CHR 0x5C, c]
      else if c = CHR 0x09 then [CHR 0x5C, CHR ''t'']
      else if c = CHR 0x0A then [CHR 0x5C, CHR ''n'']
      else if c = CHR 0x0D then [CHR 0x5C, CHR ''r'']
      else if of_char c < (32::nat) \<or> c = CHR 0x7F
        then [CHR 0x5C, CHR ''x'', hex_digit (of_char c div 16), hex_digit (of_char c mod 16)]
      else [c])"

definition py_repr :: "string \<Rightarrow> string" where
  "py_repr s =
     (let quote = (if CHR 0x27 \<in> set s \<and> CHR 0x22 \<notin> set s then CHR 0x22 else CHR 0x27)
      in [quote] @ concat (map (repr_char quote) s) @ [quote])"

text \<open>\<^verbatim>\<open>str(e)\<close>, as the f-string of an \<^verbatim>\<open>except\<close> clause prints it: a KeyError shows the
  \<^verbatim>\<open>repr\<close> of its argument, the others the argument itself.\<close>

fun str_exn :: "exn \<Rightarrow> string" where
  "str_exn (ValueError m) = m"
| "str_exn (KeyError k) = py_repr k"
| "str_exn (DataError m) = m"
| "str_exn (OSError m) = m"
| "str_exn (OverflowError m) = m"

text \<open>\<^verbatim>\<open>str\<close> of a Python integer, which the f-string \<^verbatim>\<open>f'{window}_SMA'\<close> uses.\<close>

definition digit_char :: "nat \<Rightarrow> char" where
  "digit_char d = ''0123456789'' ! d"

fun str_nat :: "nat \<Rightarrow> string" where
  "str_nat n = (if n < 10 then [digit_char n] else str_nat (n div 10) @ [digit_char (n mod 10)])"

definition str_int :: "int \<Rightarrow> string" where
  "str_int i = (if i < 0 then CHR ''-'' # str_nat (nat (- i)) else str_nat (nat i))"

definition sma_name :: "int \<Rightarrow> string" where
  "sma_name window = str_int window @ ''_SMA''"

section \<open>The DataFrame operations the scripts call\<close>

record dataframe =
  index_name :: "string option"
  index :: "cell list"
  columns :: "(string \<times> cell list) list"

text \<open>\<^verbatim>\<open>data.empty\<close>: no rows or no columns.\<close>

definition empty_frame :: "dataframe \<Rightarrow> bool" where
  "empty_frame df = (index df = [] \<or> columns df = [])"

text \<open>\<^verbatim>\<open>data[name]\<close>: the column, KeyError when the frame has none of that name.\<close>

definition getitem :: "dataframe \<Rightarrow> string \<Rightarrow> exn + cell list" where
  "getitem df name = (case map_of (columns df) name of
       None \<Rightarrow> Inl (KeyError name)
     | Some col \<Rightarrow> Inr col)"

text \<open>\<^verbatim>\<open>data[name] = col\<close>: an existing column is replaced where it stands, a new one is
  put after the last column.\<close>

fun set_column :: "string \<Rightarrow> cell list \<Rightarrow> (string \<times> cell list) list \<Rightarrow> (string \<times> cell list) list" where
  "set_column name col [] = [(name, col)]"
| "set_column name col (p # ps) =
     (if fst p = name then (name, col) # ps else p # set_column name col ps)"

definition setitem :: "dataframe \<Rightarrow> string \<Rightarrow> cell list \<Rightarrow> dataframe" where
  "setitem df name col = df\<lparr>columns := set_column name col (columns df)\<rparr>"

subsection \<open>\<^verbatim>\<open>Series.rolling(window=w).mean()\<close>\<close>

text \<open>
  The library's fixed window ends at position \<open>i\<close> and starts \<open>w\<close> positions earlier,
  clipped at the start of the series: it is the slice \<^verbatim>\<open>values[max(0, i+1-w) : i+1]\<close>.
  The subtraction on \<open>nat\<close> stops at 0, which is the clipping.
\<close>

definition window_at :: "nat \<Rightarrow> nat \<Rightarrow> 'a list \<Rightarrow> 'a list" where
  "window_at w i values = take (Suc i - (Suc i - w)) (drop (Suc i - w) values)"

text \<open>
  The mean of one window: the observations are the values that are not NaN; the result is
  a number when there are at least \<open>minp\<close> of them and at least one, and NaN otherwise.
  The number is the exact sum over the count; the float64 that the library gets from its
  running sum differs from it by the rounding of its additions and of the division.
\<close>

definition calc_mean :: "nat \<Rightarrow> rat option list \<Rightarrow> rat option" where
  "calc_mean minp win =
     (let obs = map the (filter (\<lambda>v. v \<noteq> None) win); nobs = length obs
      in if minp \<le> nobs \<and> 0 < nobs then Some (sum_list obs / of_nat nobs) else None)"

definition roll_mean :: "rat option list \<Rightarrow> nat \<Rightarrow> nat \<Rightarrow> rat option list" where
  "roll_mean values w minp = map (\<lambda>i. calc_mean minp (window_at w i values)) [0..<length values]"

text \<open>
  A numeric cell read as a float64 (None is NaN); a calendar day is not numeric. An int64
  number becomes the nearest float64: the number itself when it has at most 53 bits, and
  otherwise its 53 leading bits, rounded to the nearest with ties to the even one.
\<close>

fun numeric :: "cell \<Rightarrow> bool" where
  "numeric (Day d) = False"
| "numeric c = True"

fun bit_length :: "nat \<Rightarrow> nat" where
  "bit_length n = (if n = 0 then 0 else Suc (bit_length (n div 2)))"

definition nearest_float64 :: "nat \<Rightarrow> nat" where
  "nearest_float64 n =
     (let e = bit_length n - 53; q = n div 2 ^ e; r = n mod 2 ^ e
      in if 2 ^ e < 2 * r \<or> (2 * r = 2 ^ e \<and> odd q) then (q + 1) * 2 ^ e else q * 2 ^ e)"

definition float_of_int64 :: "int \<Rightarrow> rat" where
  "float_of_int64 k =
     (if k < 0 then - of_nat (nearest_float64 (nat (- k))) else of_nat (nearest_float64 (nat k)))"

fun as_float :: "cell \<Rightarrow> rat option" where
  "as_float (Num r) = Some r"
| "as_float (Int64 k) = Some (float_of_int64 k)"
| "as_float NaN = None"
| "as_float (Day d) = None"

fun of_float :: "rat option \<Rightarrow> cell" where
  "of_float (Some r) = Num r"
| "of_float None = NaN"

text \<open>
  \<^verbatim>\<open>col.rolling(window=window).mean()\<close>. \<^verbatim>\<open>rolling\<close> refuses a negative window with a
  ValueError and accepts 0; \<^verbatim>\<open>min_periods\<close> is not given, so it is the window size;
  \<^verbatim>\<open>mean\<close> refuses a column that is not numeric, and returns a column without rows as
  it is. On a column with rows the window bounds are int64 numbers, and a window of
  \<open>2^63\<close> or more does not fit: the library raises OverflowError.
\<close>

definition rolling_mean :: "cell list \<Rightarrow> int \<Rightarrow> exn + cell list" where
  "rolling_mean col window =
     (if window < 0 then Inl (ValueError ''window must be an integer 0 or greater'')
      else if \<not> list_all numeric col then Inl (DataError ''No numeric types to aggregate'')
      else if col \<noteq> [] \<and> 9223372036854775808 \<le> window
        then Inl (OverflowError ''Python int too large to convert to C long'')
      else Inr (map of_float (roll_mean (map as_float col) (nat window) (nat window))))"

section \<open>The world outside the scripts\<close>

text \<open>
  What a run leaves behind: the lines printed on standard output and the files written.
  A CSV file is its header line and its rows of cells; the NaN cell is the one
  \<^verbatim>\<open>to_csv\<close> writes as an empty field.
\<close>

record csv_file =
  header :: string
  rows :: "cell list list"

datatype file_content = Csv csv_file | Png

record world =
  printed :: "string list"
  files :: "string \<rightharpoonup> file_content"

definition print :: "string \<Rightarrow> world \<Rightarrow> world" where
  "print line w = w\<lparr>printed := printed w @ [line]\<rparr>"

definition write_file :: "string \<Rightarrow> file_content \<Rightarrow> world \<Rightarrow> world" where
  "write_file name f w = w\<lparr>files := (files w)(name \<mapsto> f)\<rparr>"

text \<open>
  The day that \<^verbatim>\<open>datetime.now()\<close> and \<^verbatim>\<open>datetime.today()\<close> read from the system clock:
  the clock counts from 1970-01-01 (day 719163) and a date ends with 9999-12-31
  (day 3652059).
\<close>

typedef clock_day = "{d::int. 719163 \<le> d \<and> d \<le> 3652059}"
  by (rule exI [of _ 719163]) simp

text \<open>
  \<^verbatim>\<open>end_date - timedelta(days=n)\<close>: a \<^verbatim>\<open>timedelta\<close> holds at most 999999999 days in
  either direction, and the day that results must be a date of the years 1 to 9999;
  both are OverflowError otherwise.
\<close>

definition minus_days :: "date \<Rightarrow> int \<Rightarrow> exn + date" where
  "minus_days end_date n =
     (if n < - 999999999 \<or> 999999999 < n
      then Inl (OverflowError (''days='' @ str_int n @ ''; must have magnitude <= 999999999''))
      else if end_date - n < 1 \<or> 3652059 < end_date - n
      then Inl (OverflowError ''date value out of range'')
      else Inr (end_date - n))"

text \<open>
  What the external collaborators answer during one run: the result of the one
  \<^verbatim>\<open>yf.download\<close> call (a frame or an exception), whether writing the CSV file and
  saving the chart raise, the clock, and the text of a date.
\<close>

record env =
  yf_download :: "exn + dataframe"
  to_csv_raises :: "exn option"
  savefig_raises :: "exn option"
  today :: clock_day
  isoformat :: "date \<Rightarrow> string"

text \<open>How a script ends: \<^verbatim>\<open>main\<close> returns, \<^verbatim>\<open>sys.exit(n)\<close> ends the process, or an
  exception nobody catches ends it with a traceback and status 1.\<close>

datatype outcome = Returned | SystemExit int | Uncaught exn

fun exit_status :: "outcome \<Rightarrow> int" where
  "exit_status Returned = 0"
| "exit_status (SystemExit n) = n"
| "exit_status (Uncaught e) = 1"

section \<open>More DataFrame operations\<close>

text \<open>\<^verbatim>\<open>data[[n1, n2, ...]]\<close>: a new frame with these columns in this order. When names
  are missing the KeyError lists them, each once in the order asked for; when every name
  is missing it shows the whole request.\<close>

fun join :: "string \<Rightarrow> string list \<Rightarrow> string" where
  "join sep [] = []"
| "join sep [x] = x"
| "join sep (x # y # ys) = x @ sep @ join sep (y # ys)"

definition select_columns :: "dataframe \<Rightarrow> string list \<Rightarrow> exn + dataframe" where
  "select_columns df names =
     (case filter (\<lambda>n. map_of (columns df) n = None) names of
        [] \<Rightarrow> Inr (df\<lparr>columns := map (\<lambda>n. (n, the (map_of (columns df) n))) names\<rparr>)
      | m # ms \<Rightarrow>
          if list_all (\<lambda>n. map_of (columns df) n = None) names
          then Inl (KeyError (''None of [Index(['' @ join '', '' (map py_repr names)
                                @ ''], dtype='' @ py_repr ''object'' @ '')] are in the [columns]''))
          else Inl (KeyError (''['' @ join '', '' (map py_repr (rev (remdups (rev (m # ms)))))
                                @ ''] not in index'')))"

text \<open>
  \<^verbatim>\<open>reset_index(inplace=True)\<close>: the index becomes the first column, under the name of
  the index (\<^verbatim>\<open>index\<close>, or \<^verbatim>\<open>level_0\<close>, for an index without a name), and the rows are
  numbered from 0; a column of that name already there is a ValueError.
\<close>

definition reset_index :: "dataframe \<Rightarrow> exn + dataframe" where
  "reset_index df =
     (let names = map fst (columns df);
          name = (case index_name df of
                    Some n \<Rightarrow> n
                  | None \<Rightarrow> if ''index'' \<in> set names then ''level_0'' else ''index'')
      in if name \<in> set names
         then Inl (ValueError (''cannot insert '' @ name @ '', already exists''))
         else Inr \<lparr>index_name = None,
                   index = map (\<lambda>i. Int64 (int i)) [0..<length (index df)],
                   columns = (name, index df) # columns df\<rparr>)"

text \<open>\<^verbatim>\<open>to_csv(filename, index=False)\<close>: the header is the column names between commas,
  and there is one row for each position of the index, with the cell of each column.
  The columns of a frame are as long as its index (\<open>aligned\<close> below), which keeps the
  reads in range.\<close>

definition to_csv :: "dataframe \<Rightarrow> csv_file" where
  "to_csv df =
     \<lparr>header = join '','' (map fst (columns df)),
      rows = map (\<lambda>i. map (\<lambda>p. snd p ! i) (columns df)) [0..<length (index df)]\<rparr>"

text \<open>Every column of a frame is as long as its index.\<close>

definition aligned :: "dataframe \<Rightarrow> bool" where
  "aligned df = list_all (\<lambda>p. length (snd p) = length (index df)) (columns df)"

text \<open>\<^verbatim>\<open>ticker.lower()\<close> for a ticker of ASCII text: the letters A to Z become a to z and
  every other character stays.\<close>

definition lower_char :: "char \<Rightarrow> char" where
  "lower_char c =
     (case map_of (zip ''ABCDEFGHIJKLMNOPQRSTUVWXYZ'' ''abcdefghijklmnopqrstuvwxyz'') c of
        Some l \<Rightarrow> l
      | None \<Rightarrow> c)"

definition lower :: "string \<Rightarrow> string" where
  "lower s = map lower_char s"

section \<open>The moving-average transform\<close>

text \<open>
  \<^verbatim>\<open>calculate_sma\<close> of \<^verbatim>\<open>apple_stock_data.py\<close>:
  \<^verbatim>\<open>data[f'{window}_SMA'] = data['Close'].rolling(window=window).mean(); return data\<close>.
  The frame is changed in place; the model returns the changed frame, and an exception
  leaves the frame as it was.
\<close>

definition data_calculate_sma :: "dataframe \<Rightarrow> int \<Rightarrow> exn + dataframe" where
  "data_calculate_sma data window =
     (case getitem data ''Close'' of
        Inl e \<Rightarrow> Inl e
      | Inr close \<Rightarrow>
          (case rolling_mean close window of
             Inl e \<Rightarrow> Inl e
           | Inr sma \<Rightarrow> Inr (setitem data (sma_name window) sma)))"

text \<open>
  \<^verbatim>\<open>calculate_sma\<close> of \<^verbatim>\<open>apple_stock_analysis.py\<close>: the same statement after a progress
  line on standard output.
\<close>

definition analysis_calculate_sma :: "dataframe \<Rightarrow> int \<Rightarrow> world \<Rightarrow> (exn + dataframe) \<times> world" where
  "analysis_calculate_sma data window w =
     (let w1 = print (''Calculating '' @ str_int window @ ''-day SMA...'') w
      in case getitem data ''Close'' of
           Inl e \<Rightarrow> (Inl e, w1)
         | Inr close \<Rightarrow>
             (case rolling_mean close window of
                Inl e \<Rightarrow> (Inl e, w1)
              | Inr sma \<Rightarrow> (Inr (setitem data (sma_name window) sma), w1)))"

text \<open>The SMA series of a result: the column \<^verbatim>\<open>'{window}_SMA'\<close> of the returned frame.\<close>

definition sma_column :: "exn + dataframe \<Rightarrow> int \<Rightarrow> cell list option" where
  "sma_column res window =
     (case res of Inl e \<Rightarrow> None | Inr df \<Rightarrow> map_of (columns df) (sma_name window))"

text \<open>The specification's mean of the closing prices at positions \<open>lo\<close> to \<open>hi\<close>, both
  included.\<close>

definition mean :: "rat list \<Rightarrow> rat" where
  "mean xs = sum_list xs / of_nat (length xs)"

definition closes_range :: "rat list \<Rightarrow> nat \<Rightarrow> nat \<Rightarrow> rat list" where
  "closes_range closes lo hi = map (\<lambda>k. closes ! k) [lo..<Suc hi]"

section \<open>The pipeline of \<^verbatim>\<open>apple_stock_analysis.py\<close>\<close>

text \<open>
  \<^verbatim>\<open>fetch_stock_data\<close>: the date range comes first, from the clock and \<^verbatim>\<open>days_back\<close>, and
  a range that cannot be computed raises before anything is printed; then the download,
  and a ValueError for a frame without data.
\<close>

definition analysis_fetch_stock_data :: "env \<Rightarrow> string \<Rightarrow> int \<Rightarrow> world \<Rightarrow> (exn + dataframe) \<times> world" where
  "analysis_fetch_stock_data e ticker days_back w =
     (let end_date = Rep_clock_day (today e)
      in case minus_days end_date days_back of
           Inl x \<Rightarrow> (Inl x, w)
         | Inr start_date \<Rightarrow>
             (let w1 = print (''Fetching '' @ str_int days_back
                                @ '' days of historical data for '' @ ticker @ ''...'') w
              in case yf_download e of
                   Inl x \<Rightarrow> (Inl x, w1)
                 | Inr data \<Rightarrow>
                     if empty_frame data
                     then (Inl (ValueError (''No data found for ticker '' @ ticker)), w1)
                     else (Inr data, print ''Data fetched successfully!'' w1)))"

definition process_and_save_data :: "env \<Rightarrow> dataframe \<Rightarrow> string \<Rightarrow> world \<Rightarrow> (exn + unit) \<times> world" where
  "process_and_save_data e data filename w =
     (case select_columns data [''Open'', ''High'', ''Low'', ''Close'', ''10_SMA''] of
        Inl x \<Rightarrow> (Inl x, w)
      | Inr selected \<Rightarrow>
          (case reset_index selected of
             Inl x \<Rightarrow> (Inl x, w)
           | Inr processed_data \<Rightarrow>
               (let w1 = print (''Saving data to '' @ filename @ ''...'') w
                in case to_csv_raises e of
                     Some x \<Rightarrow> (Inl x, w1)
                   | None \<Rightarrow>
                       (Inr (),
                        print (''Data successfully saved to '' @ filename @ ''!'')
                          (write_file filename (Csv (to_csv processed_data)) w1)))))"

definition visualize_data :: "env \<Rightarrow> dataframe \<Rightarrow> string \<Rightarrow> world \<Rightarrow> (exn + unit) \<times> world" where
  "visualize_data e data ticker w =
     (let w1 = print ''Creating visualization...'' w
      in case getitem data ''Close'' of
           Inl x \<Rightarrow> (Inl x, w1)
         | Inr close \<Rightarrow>
             (case getitem data ''10_SMA'' of
                Inl x \<Rightarrow> (Inl x, w1)
              | Inr sma \<Rightarrow>
                  (let plot_filename = lower ticker @ ''_chart.png''
                   in case savefig_raises e of
                        Some x \<Rightarrow> (Inl x, w1)
                      | None \<Rightarrow>
                          (Inr (),
                           print (''Plot saved as '' @ plot_filename @ ''!'')
                             (write_file plot_filename Png w1)))))"

text \<open>The body of the \<^verbatim>\<open>try\<close> of \<^verbatim>\<open>main\<close>, with the configuration as parameters.\<close>

definition analysis_steps :: "string \<Rightarrow> int \<Rightarrow> int \<Rightarrow> string \<Rightarrow> env \<Rightarrow> world \<Rightarrow> (exn + unit) \<times> world" where
  "analysis_steps ticker sma_window days_back output_csv e w =
     (case analysis_fetch_stock_data e ticker days_back w of
        (Inl x, w1) \<Rightarrow> (Inl x, w1)
      | (Inr stock_data, w1) \<Rightarrow>
          (case analysis_calculate_sma stock_data sma_window w1 of
             (Inl x, w2) \<Rightarrow> (Inl x, w2)
           | (Inr stock_data', w2) \<Rightarrow>
               (case process_and_save_data e stock_data' output_csv w2 of
                  (Inl x, w3) \<Rightarrow> (Inl x, w3)
                | (Inr u, w3) \<Rightarrow> visualize_data e stock_data' ticker w3)))"

text \<open>\<^verbatim>\<open>except Exception as e: print(f"An error occurred: {e}")\<close>, after which \<^verbatim>\<open>main\<close>
  returns.\<close>

definition analysis_run :: "string \<Rightarrow> int \<Rightarrow> int \<Rightarrow> string \<Rightarrow> env \<Rightarrow> world \<Rightarrow> outcome \<times> world" where
  "analysis_run ticker sma_window days_back output_csv e w =
     (case analysis_steps ticker sma_window days_back output_csv e w of
        (Inr u, w1) \<Rightarrow> (Returned, w1)
      | (Inl x, w1) \<Rightarrow> (Returned, print (''An error occurred: '' @ str_exn x) w1))"

definition analysis_main :: "env \<Rightarrow> world \<Rightarrow> outcome \<times> world" where
  "analysis_main e w = analysis_run ''AAPL'' 10 365 ''apple_stock_data.csv'' e w"

section \<open>The pipeline of \<^verbatim>\<open>apple_stock_data.py\<close>\<close>

text \<open>\<^verbatim>\<open>fetch_stock_data\<close>: every failure prints a line and calls \<^verbatim>\<open>sys.exit(1)\<close>, whose
  SystemExit is not an \<^verbatim>\<open>Exception\<close> and so passes the \<^verbatim>\<open>except\<close> clause. \<open>Inl n\<close> is
  the exit with status \<open>n\<close>.\<close>

definition data_fetch_stock_data :: "env \<Rightarrow> string \<Rightarrow> world \<Rightarrow> (int + dataframe) \<times> world" where
  "data_fetch_stock_data e ticker w =
     (case yf_download e of
        Inr data \<Rightarrow>
          if empty_frame data
          then (Inl 1, print (''No data found for ticker '' @ ticker
                               @ '' in the given date range.'') w)
          else (Inr data, w)
      | Inl x \<Rightarrow>
          (Inl 1, print (''Error fetching data for '' @ ticker @ '': '' @ str_exn x) w))"

definition save_to_csv :: "env \<Rightarrow> dataframe \<Rightarrow> string \<Rightarrow> world \<Rightarrow> (exn + unit) \<times> world" where
  "save_to_csv e data filename w =
     (case to_csv_raises e of
        Some x \<Rightarrow> (Inl x, w)
      | None \<Rightarrow> (Inr (), print (''Data saved to '' @ filename)
                            (write_file filename (Csv (to_csv data)) w)))"

definition plot_data :: "env \<Rightarrow> dataframe \<Rightarrow> string \<Rightarrow> int \<Rightarrow> bool \<Rightarrow> world \<Rightarrow> (exn + unit) \<times> world" where
  "plot_data e data ticker sma_window save_image w =
     (case getitem data ''Date'' of
        Inl x \<Rightarrow> (Inl x, w)
      | Inr dates \<Rightarrow>
          (case getitem data ''Close'' of
             Inl x \<Rightarrow> (Inl x, w)
           | Inr close \<Rightarrow>
               (case getitem data (sma_name sma_window) of
                  Inl x \<Rightarrow> (Inl x, w)
                | Inr sma \<Rightarrow>
                    if save_image
                    then (let image_filename = ''apple_chart.png''
                          in case savefig_raises e of
                               Some x \<Rightarrow> (Inl x, w)
                             | None \<Rightarrow>
                                 (Inr (), print (''Plot saved as '' @ image_filename)
                                            (write_file image_filename Png w)))
                    else (Inr (), w))))"

text \<open>\<^verbatim>\<open>main\<close>, with the ticker and the window as parameters. The date range is the 365
  days before the clock's day. Nothing catches an exception here.\<close>

definition data_run :: "string \<Rightarrow> int \<Rightarrow> env \<Rightarrow> world \<Rightarrow> outcome \<times> world" where
  "data_run ticker sma_window e w =
     (let end_date = Rep_clock_day (today e)
      in case minus_days end_date 365 of
           Inl x \<Rightarrow> (Uncaught x, w)
         | Inr start_date \<Rightarrow>
      (let w0 = print (''Fetching data for '' @ ticker @ '' from '' @ isoformat e start_date
                        @ '' to '' @ isoformat e end_date @ ''...'') w
      in case data_fetch_stock_data e ticker w0 of
           (Inl n, w1) \<Rightarrow> (SystemExit n, w1)
         | (Inr data, w1) \<Rightarrow>
             (case data_calculate_sma data sma_window of
                Inl x \<Rightarrow> (Uncaught x, w1)
              | Inr data1 \<Rightarrow>
                  (case reset_index data1 of
                     Inl x \<Rightarrow> (Uncaught x, w1)
                   | Inr data2 \<Rightarrow>
                       (case select_columns data2
                               [''Date'', ''Open'', ''High'', ''Low'', ''Close'', sma_name sma_window] of
                          Inl x \<Rightarrow> (Uncaught x, w1)
                        | Inr final_data \<Rightarrow>
                            (case save_to_csv e final_data ''apple_stock_data.csv'' w1 of
                               (Inl x, w2) \<Rightarrow> (Uncaught x, w2)
                             | (Inr u, w2) \<Rightarrow>
                                 (case plot_data e final_data ticker sma_window True w2 of
                                    (Inl x, w3) \<Rightarrow> (Uncaught x, w3)
                                  | (Inr u, w3) \<Rightarrow> (Returned, w3))))))))"

definition data_main :: "env \<Rightarrow> world \<Rightarrow> outcome \<times> world" where
  "data_main e w = data_run ''AAPL'' 10 e w"

section \<open>Fetched price series\<close>

text \<open>
  A frame as the data source hands it over: the index is called \<^verbatim>\<open>Date\<close> and holds
  calendar days in strictly increasing order, the columns have distinct names among the
  ones the source delivers, with the four prices among them, every column is as long as
  the index and the closing prices are numbers.
\<close>

fun is_day :: "cell \<Rightarrow> bool" where
  "is_day (Day d) = True"
| "is_day c = False"

fun day_of :: "cell \<Rightarrow> date" where
  "day_of (Day d) = d"
| "day_of c = 0"

fun is_num :: "cell \<Rightarrow> bool" where
  "is_num (Num r) = True"
| "is_num c = False"

definition price_frame :: "dataframe \<Rightarrow> bool" where
  "price_frame df =
     (index_name df = Some ''Date'' \<and>
      list_all is_day (index df) \<and>
      sorted_wrt (<) (map day_of (index df)) \<and>
      distinct (map fst (columns df)) \<and>
      list_all (\<lambda>n. n \<in> set (map fst (columns df))) [''Open'', ''High'', ''Low'', ''Close''] \<and>
      list_all (\<lambda>n. n \<in> set [''Open'', ''High'', ''Low'', ''Close'', ''Adj Close'', ''Volume''])
        (map fst (columns df)) \<and>
      aligned df \<and>
      (case map_of (columns df) ''Close'' of None \<Rightarrow> False | Some close \<Rightarrow> list_all is_num close))"

text \<open>The fetch step fails: the download raises, or it delivers a frame without data.\<close>

definition fetch_fails :: "env \<Rightarrow> bool" where
  "fetch_fails e = (case yf_download e of Inl x \<Rightarrow> True | Inr data \<Rightarrow> empty_frame data)"

definition world0 :: world where
  "world0 = \<lparr>printed = [], files = Map.empty\<rparr>"

text \<open>Ten trading days with the closing prices 1 to 10, and a frame without rows.\<close>

definition example_frame :: dataframe where
  "example_frame =
     \<lparr>index_name = Some ''Date'',
      index = [Day 739908, Day 739909, Day 739910, Day 739911, Day 739912,
               Day 739915, Day 739916, Day 739917, Day 739918, Day 739919],
      columns =
        [(''Open'', [Num 1, Num 2, Num 3, Num 4, Num 5, Num 6, Num 7, Num 8, Num 9, Num 10]),
         (''High'', [Num 2, Num 3, Num 4, Num 5, Num 6, Num 7, Num 8, Num 9, Num 10, Num 11]),
         (''Low'', [Num 0, Num 1, Num 2, Num 3, Num 4, Num 5, Num 6, Num 7, Num 8, Num 9]),
         (''Close'', [Num 1, Num 2, Num 3, Num 4, Num 5, Num 6, Num 7, Num 8, Num 9, Num 10])]\<rparr>"

definition no_rows :: dataframe where
  "no_rows =
     \<lparr>index_name = Some ''Date'', index = [],
      columns = [(''Open'', []), (''High'', []), (''Low'', []), (''Close'', [])]\<rparr>"

definition example_env :: env where
  "example_env =
     \<lparr>yf_download = Inr example_frame, to_csv_raises = None, savefig_raises = None,
      today = Abs_clock_day 739923, isoformat = (\<lambda>d. str_int d)\<rparr>"

text \<open>A run in which the source has no data, and one in which the CSV file cannot be
  written.\<close>

definition no_data_env :: env where
  "no_data_env = example_env\<lparr>yf_download := Inr no_rows\<rparr>"

definition unwritable_env :: env where
  "unwritable_env = example_env\<lparr>to_csv_raises := Some (OSError ''Permission denied'')\<rparr>"

section \<open>Facts about the library operations\<close>

lemma length_roll_mean: "length (roll_mean values w minp) = length values"
  by (simp add: roll_mean_def)

lemma nth_roll_mean:
  "i < length values \<Longrightarrow> roll_mean values w minp ! i = calc_mean minp (window_at w i values)"
  by (simp add: roll_mean_def)

lemma length_window_at:
  "i < length values \<Longrightarrow> length (window_at w i values) = min w (Suc i)"
  by (auto simp: window_at_def)

lemma calc_mean_short:
  assumes "length win < minp"
  shows "calc_mean minp win = None"
proof -
  define obs where "obs = filter (\<lambda>v. v \<noteq> None) win"
  have "length obs \<le> length win"
    unfolding obs_def by (rule length_filter_le)
  with assms have "\<not> minp \<le> length obs"
    by simp
  then show ?thesis
    unfolding calc_mean_def Let_def obs_def [symmetric] by simp
qed

lemma calc_mean_full:
  "0 < length xs \<Longrightarrow> calc_mean (length xs) (map Some xs) = Some (mean xs)"
  by (simp add: calc_mean_def mean_def Let_def filter_map comp_def)

lemma window_at_full:
  assumes "w \<le> Suc i" and "i < length xs"
  shows "window_at w i (map f xs) = map f (closes_range xs (Suc i - w) i)"
proof -
  have "take w (drop (Suc i - w) xs) = map (\<lambda>k. xs ! k) [Suc i - w..<Suc i]"
  proof (rule nth_equalityI)
    show "length (take w (drop (Suc i - w) xs)) = length (map (\<lambda>k. xs ! k) [Suc i - w..<Suc i])"
      using assms by (simp del: upt_Suc)
  next
    fix k assume "k < length (take w (drop (Suc i - w) xs))"
    with assms show "take w (drop (Suc i - w) xs) ! k = map (\<lambda>k. xs ! k) [Suc i - w..<Suc i] ! k"
      by (simp del: upt_Suc)
  qed
  moreover have "Suc i - (Suc i - w) = w"
    using assms by arith
  ultimately show ?thesis
    by (simp add: window_at_def closes_range_def take_map drop_map del: upt_Suc)
qed

lemma length_closes_range: "length (closes_range xs lo hi) = Suc hi - lo"
  by (simp add: closes_range_def del: upt_Suc)

lemma map_of_set_column_same: "map_of (set_column name col ps) name = Some col"
  by (induction ps) auto

lemma map_of_set_column_other:
  "n \<noteq> name \<Longrightarrow> map_of (set_column name col ps) n = map_of ps n"
  by (induction ps) auto

lemma names_set_column:
  "map fst (set_column name col ps) =
     (if name \<in> set (map fst ps) then map fst ps else map fst ps @ [name])"
  by (induction ps) auto

lemma numeric_map_Num: "list_all numeric (map Num xs)"
  by (induction xs) auto

lemma sma_name_last: "last (sma_name w) = CHR ''A''"
  by (simp add: sma_name_def)

lemma sma_name_not_price:
  "sma_name w \<noteq> ''Open''" "sma_name w \<noteq> ''High''" "sma_name w \<noteq> ''Low''"
  "sma_name w \<noteq> ''Close''" "sma_name w \<noteq> ''Date''" "sma_name w \<noteq> ''Adj Close''"
  "sma_name w \<noteq> ''Volume''"
  using sma_name_last [of w] by auto

lemma data_calculate_sma_Inr:
  assumes "data_calculate_sma df w = Inr df'"
  obtains col where "map_of (columns df) ''Close'' = Some col" and "0 \<le> w"
    and "list_all numeric col"
    and "df' = setitem df (sma_name w)
                 (map of_float (roll_mean (map as_float col) (nat w) (nat w)))"
  using assms
  by (auto simp: data_calculate_sma_def getitem_def rolling_mean_def
           split: option.splits if_splits)

lemma data_calculate_sma_ok:
  assumes "map_of (columns df) ''Close'' = Some col" and "0 \<le> w" and "list_all numeric col"
    and "w < 9223372036854775808 \<or> col = []"
  shows "data_calculate_sma df w =
           Inr (setitem df (sma_name w)
                  (map of_float (roll_mean (map as_float col) (nat w) (nat w))))"
  using assms by (auto simp: data_calculate_sma_def getitem_def rolling_mean_def)

lemma data_calculate_sma_overflow:
  assumes "map_of (columns df) ''Close'' = Some col" and "list_all numeric col"
    and "col \<noteq> []" and "9223372036854775808 \<le> w"
  shows "data_calculate_sma df w
           = Inl (OverflowError ''Python int too large to convert to C long'')"
  using assms by (simp add: data_calculate_sma_def getitem_def rolling_mean_def)

lemma analysis_calculate_sma_fst:
  "fst (analysis_calculate_sma df w wd) = data_calculate_sma df w"
  by (simp add: analysis_calculate_sma_def data_calculate_sma_def Let_def
           split: sum.splits)

lemma sma_column_setitem: "sma_column (Inr (setitem df (sma_name w) col)) w = Some col"
  by (simp add: sma_column_def setitem_def map_of_set_column_same)

lemma filter_set_column:
  "filter (\<lambda>p. fst p \<noteq> name) (set_column name col ps) = filter (\<lambda>p. fst p \<noteq> name) ps"
  by (induction ps) auto


lemma set_column_aligned:
  assumes "list_all (\<lambda>p. length (snd p) = n) ps" and "length col = n"
  shows "list_all (\<lambda>p. length (snd p) = n) (set_column name col ps)"
  using assms by (induction ps) auto

lemma data_calculate_sma_aligned:
  assumes "aligned df" and "data_calculate_sma df w = Inr df'"
  shows "aligned df'"
proof -
  from assms(2) obtain col where close: "map_of (columns df) ''Close'' = Some col"
    and df': "df' = setitem df (sma_name w)
                      (map of_float (roll_mean (map as_float col) (nat w) (nat w)))"
    by (rule data_calculate_sma_Inr)
  from close have "(''Close'', col) \<in> set (columns df)"
    by (rule map_of_SomeD)
  with assms(1) have "length col = length (index df)"
    by (auto simp: aligned_def list_all_iff)
  with assms(1) show ?thesis
    by (simp add: df' aligned_def setitem_def set_column_aligned length_roll_mean)
qed

lemma roll_mean_window_mean:
  assumes "0 < w" and "w \<le> Suc i" and "i < length closes"
  shows "roll_mean (map Some closes) w w ! i = Some (mean (closes_range closes (Suc i - w) i))"
proof -
  have len: "length (closes_range closes (Suc i - w) i) = w"
    using assms by (simp add: length_closes_range)
  have "roll_mean (map Some closes) w w ! i = calc_mean w (window_at w i (map Some closes))"
    using assms by (simp add: nth_roll_mean)
  also have "\<dots> = calc_mean w (map Some (closes_range closes (Suc i - w) i))"
    using assms by (simp add: window_at_full)
  also have "\<dots> = Some (mean (closes_range closes (Suc i - w) i))"
    using calc_mean_full [of "closes_range closes (Suc i - w) i"] len assms by simp
  finally show ?thesis .
qed

lemma roll_mean_prefix:
  assumes "Suc i < w" and "i < length values"
  shows "roll_mean values w w ! i = None"
proof -
  have "length (window_at w i values) < w"
    using assms by (simp add: length_window_at)
  then show ?thesis
    using assms by (simp add: nth_roll_mean calc_mean_short)
qed

section \<open>The contract of the moving-average transform\<close>

text \<open>
  Claim C2, as the code has it. For a numeric column of closing prices, a positive window
  \<open>w\<close> below \<open>2^63\<close> and a position \<open>i < w - 1\<close>, the entry \<open>i\<close> of the SMA column is
  the missing marker NaN: a window that is not full is never averaged.
\<close>

theorem sma_undefined_prefix:
  assumes "map_of (columns df) ''Close'' = Some close" and "list_all numeric close"
    and "0 < w" and "w < 9223372036854775808" and "int i < w - 1" and "i < length close"
  shows "\<exists>sma. sma_column (data_calculate_sma df w) w = Some sma \<and>
               sma_column (fst (analysis_calculate_sma df w wd)) w = Some sma \<and>
               sma ! i = NaN"
proof -
  let ?sma = "map of_float (roll_mean (map as_float close) (nat w) (nat w))"
  have res: "data_calculate_sma df w = Inr (setitem df (sma_name w) ?sma)"
    using assms by (intro data_calculate_sma_ok) simp_all
  have "roll_mean (map as_float close) (nat w) (nat w) ! i = None"
    using assms by (intro roll_mean_prefix) simp_all
  then have "?sma ! i = NaN"
    using assms by (simp add: length_roll_mean)
  then show ?thesis
    using res by (simp only: analysis_calculate_sma_fst sma_column_setitem) blast
qed

theorem sma_undefined_prefix_witness:
  "\<exists>sma. sma_column (data_calculate_sma example_frame 10) 10 = Some sma \<and>
         sma_column (fst (analysis_calculate_sma example_frame 10 world0)) 10 = Some sma \<and>
         sma ! 8 = NaN"
  using sma_undefined_prefix [of example_frame _ 10 8 world0]
  by (simp add: example_frame_def)

text \<open>
  Claim C2 as stated (every positive window) fails at the window \<open>2^63\<close>: on the ten
  closing prices the library raises OverflowError, no column is added, and so there is
  no entry at position 0 that could be the missing marker.
\<close>

theorem sma_undefined_prefix_counterexample:
  "(0::nat) < length [Num 1, Num 2, Num 3, Num 4, Num 5, Num 6, Num 7, Num 8, Num 9, Num 10] \<and>
   int 0 < 9223372036854775808 - 1 \<and>
   sma_column (data_calculate_sma example_frame 9223372036854775808) 9223372036854775808 = None \<and>
   sma_column (fst (analysis_calculate_sma example_frame 9223372036854775808 world0))
     9223372036854775808 = None"
proof -
  have "data_calculate_sma example_frame 9223372036854775808
          = Inl (OverflowError ''Python int too large to convert to C long'')"
    by (rule data_calculate_sma_overflow
          [where col = "[Num 1, Num 2, Num 3, Num 4, Num 5, Num 6, Num 7, Num 8, Num 9, Num 10]"])
      (simp_all add: example_frame_def)
  then show ?thesis
    by (simp add: analysis_calculate_sma_fst sma_column_def)
qed









text \<open>
  Claim C9. The two \<^verbatim>\<open>calculate_sma\<close> functions are equivalent: on every frame and
  every window they raise the same exception or return the same frame, so the SMA
  columns are the same in length, in their NaN positions and in their values. The one
  difference is the progress line that \<^verbatim>\<open>apple_stock_analysis.py\<close> prints.
\<close>

theorem calculate_sma_equivalent:
  "fst (analysis_calculate_sma data window wd) = data_calculate_sma data window \<and>
   sma_column (fst (analysis_calculate_sma data window wd)) window
     = sma_column (data_calculate_sma data window) window"
  by (simp add: analysis_calculate_sma_def data_calculate_sma_def Let_def split: sum.splits)

text \<open>
  Claim C6. When \<^verbatim>\<open>calculate_sma\<close> returns, the index and its name are the ones of the
  input, every column under another name than \<^verbatim>\<open>'{window}_SMA'\<close> stands where it stood
  with the cells it had, in particular \<^verbatim>\<open>Open\<close>, \<^verbatim>\<open>High\<close>, \<^verbatim>\<open>Low\<close> and \<^verbatim>\<open>Close\<close>, and the
  column names are the old ones with \<^verbatim>\<open>'{window}_SMA'\<close> put at the end when it was not
  among them.
\<close>

theorem calculate_sma_keeps_columns:
  assumes "data_calculate_sma df w = Inr df'"
  shows "fst (analysis_calculate_sma df w wd) = Inr df' \<and>
         index df' = index df \<and> index_name df' = index_name df \<and>
         filter (\<lambda>p. fst p \<noteq> sma_name w) (columns df')
           = filter (\<lambda>p. fst p \<noteq> sma_name w) (columns df) \<and>
         list_all (\<lambda>n. map_of (columns df') n = map_of (columns df) n)
           [''Open'', ''High'', ''Low'', ''Close''] \<and>
         map fst (columns df')
           = (if sma_name w \<in> set (map fst (columns df)) then map fst (columns df)
              else map fst (columns df) @ [sma_name w])"
proof -
  from assms obtain sma where df': "df' = setitem df (sma_name w) sma"
    by (rule data_calculate_sma_Inr)
  have "list_all (\<lambda>n. map_of (columns df') n = map_of (columns df) n)
          [''Open'', ''High'', ''Low'', ''Close'']"
    using sma_name_not_price [of w]
    by (simp add: df' setitem_def map_of_set_column_other del: set_column.simps)
  moreover have "fst (analysis_calculate_sma df w wd) = Inr df'"
    using assms by (simp only: analysis_calculate_sma_fst)
  ultimately show ?thesis
    by (simp add: df' setitem_def filter_set_column names_set_column)
qed

theorem calculate_sma_keeps_columns_witness:
  "fst (analysis_calculate_sma example_frame 10 world0)
     = Inr (example_frame\<lparr>columns := columns example_frame @
              [(''10_SMA'', [NaN, NaN, NaN, NaN, NaN, NaN, NaN, NaN, NaN, Num (11 / 2)])]\<rparr>) \<and>
   map fst (columns (example_frame\<lparr>columns := columns example_frame @
              [(''10_SMA'', [NaN, NaN, NaN, NaN, NaN, NaN, NaN, NaN, NaN, Num (11 / 2)])]\<rparr>))
     = [''Open'', ''High'', ''Low'', ''Close'', ''10_SMA'']"
proof -
  let ?df' = "example_frame\<lparr>columns := columns example_frame @
              [(''10_SMA'', [NaN, NaN, NaN, NaN, NaN, NaN, NaN, NaN, NaN, Num (11 / 2)])]\<rparr>"
  have run: "data_calculate_sma example_frame 10 = Inr ?df'"
    by (simp add: example_frame_def data_calculate_sma_def getitem_def rolling_mean_def
          roll_mean_def calc_mean_def window_at_def setitem_def sma_name_def str_int_def
          digit_char_def upt_rec)
  have "fst (analysis_calculate_sma example_frame 10 world0) = Inr ?df'"
    using calculate_sma_keeps_columns [OF run, of world0] by (rule conjunct1)
  moreover have "map fst (columns ?df') = [''Open'', ''High'', ''Low'', ''Close'', ''10_SMA'']"
    by (simp add: example_frame_def)
  ultimately show ?thesis
    by (rule conjI)
qed




section \<open>The name of the SMA column\<close>

lemma str_nat_nonempty: "str_nat n \<noteq> []"
  by (subst str_nat.simps) simp

lemma digit_cases:
  assumes "d < 10"
  shows "d = 0 \<or> d = 1 \<or> d = 2 \<or> d = 3 \<or> d = 4 \<or> d = 5 \<or> d = 6 \<or> d = 7 \<or> d = 8 \<or> d = (9::nat)"
  using assms by arith

lemma digit_char_zero: "d < 10 \<Longrightarrow> digit_char d = CHR ''0'' \<Longrightarrow> d = 0"
  using digit_cases [of d] by (auto simp: digit_char_def)

lemma digit_char_one: "d < 10 \<Longrightarrow> digit_char d = CHR ''1'' \<Longrightarrow> d = 1"
  using digit_cases [of d] by (auto simp: digit_char_def)

lemma str_nat_one:
  assumes "str_nat m = ''1''"
  shows "m = 1"
proof (cases "m < 10")
  case True
  with assms have "digit_char m = CHR ''1''"
    by (subst (asm) str_nat.simps) simp
  with True show ?thesis
    by (rule digit_char_one)
next
  case False
  with assms have "str_nat (m div 10) @ [digit_char (m mod 10)] = [CHR ''1'']"
    by (subst (asm) str_nat.simps) simp
  then have "str_nat (m div 10) = []"
    by (simp del: str_nat.simps)
  then show ?thesis
    using str_nat_nonempty by blast
qed

lemma str_nat_ten:
  assumes "str_nat n = ''10''"
  shows "n = 10"
proof (cases "n < 10")
  case True
  with assms show ?thesis
    by (subst (asm) str_nat.simps) simp
next
  case False
  with assms have "str_nat (n div 10) @ [digit_char (n mod 10)] = ''1'' @ [CHR ''0'']"
    by (subst (asm) str_nat.simps) simp
  then have hi: "str_nat (n div 10) = ''1''" and lo: "digit_char (n mod 10) = CHR ''0''"
    by (simp_all del: str_nat.simps)
  from hi have "n div 10 = 1"
    by (rule str_nat_one)
  moreover from lo have "n mod 10 = 0"
    by (intro digit_char_zero) simp_all
  ultimately show ?thesis
    by arith
qed

lemma sma_name_ten:
  assumes "sma_name w = ''10_SMA''"
  shows "w = 10"
proof -
  from assms have s: "str_int w = ''10''"
    by (simp add: sma_name_def)
  show ?thesis
  proof (cases "w < 0")
    case True
    with s show ?thesis
      by (simp add: str_int_def)
  next
    case False
    with s have "str_nat (nat w) = ''10''"
      by (simp add: str_int_def)
  then have "nat w = 10"
      by (rule str_nat_ten)
    with False show ?thesis
      by simp
  qed
qed

lemma sma_name_10: "sma_name 10 = ''10_SMA''"
  by (simp add: sma_name_def str_int_def digit_char_def)

section \<open>Running the pipelines on a fetched price series\<close>

lemma is_num_map_Num: "list_all is_num col \<Longrightarrow> \<exists>closes. col = map Num closes"
proof (induction col)
  case Nil
  then show ?case by simp
next
  case (Cons c col)
  then obtain closes where "col = map Num closes"
    by auto
  moreover from Cons.prems obtain r where "c = Num r"
    by (cases c) simp_all
  ultimately have "c # col = map Num (r # closes)"
    by simp
  then show ?case ..
qed

lemma price_frame_column:
  assumes "price_frame df" and "n \<in> set [''Open'', ''High'', ''Low'', ''Close'']"
  obtains col where "map_of (columns df) n = Some col" and "length col = length (index df)"
proof -
  from assms have "n \<in> fst ` set (columns df)"
    by (auto simp: price_frame_def)
  then obtain col where col: "map_of (columns df) n = Some col"
    by (cases "map_of (columns df) n") (simp_all add: map_of_eq_None_iff)
  then have "(n, col) \<in> set (columns df)"
    by (rule map_of_SomeD)
  with assms have "length col = length (index df)"
    by (auto simp: price_frame_def aligned_def list_all_iff)
  with col show ?thesis
    by (rule that)
qed

lemma price_frame_close:
  assumes "price_frame df"
  obtains closes where "map_of (columns df) ''Close'' = Some (map Num closes)"
    and "length closes = length (index df)"
proof -
  have "''Close'' \<in> set [''Open'', ''High'', ''Low'', ''Close'']"
    by simp
  with assms obtain col where col: "map_of (columns df) ''Close'' = Some col"
    and len: "length col = length (index df)"
    by (rule price_frame_column)
  with assms have "list_all is_num col"
    by (simp add: price_frame_def)
  then obtain closes where "col = map Num closes"
    using is_num_map_Num by blast
  with col len show ?thesis
    by (intro that [of closes]) simp_all
qed

lemma price_frame_other_names:
  assumes "price_frame df"
    and "n \<notin> set [''Open'', ''High'', ''Low'', ''Close'', ''Adj Close'', ''Volume'']"
  shows "map_of (columns df) n = None" and "n \<notin> set (map fst (columns df))"
proof -
  from assms show "n \<notin> set (map fst (columns df))"
    by (auto simp: price_frame_def list_all_iff)
  then show "map_of (columns df) n = None"
    by (simp add: map_of_eq_None_iff)
qed

lemma process_and_save_data_ok:
  assumes "map_of (columns d) ''Open'' = Some op" and "map_of (columns d) ''High'' = Some hi"
    and "map_of (columns d) ''Low'' = Some lo" and "map_of (columns d) ''Close'' = Some cl"
    and "map_of (columns d) ''10_SMA'' = Some sma"
    and "index_name d = Some ''Date''" and "to_csv_raises e = None"
  shows "process_and_save_data e d fn w =
           (Inr (),
            print (''Data successfully saved to '' @ fn @ ''!'')
              (write_file fn
                 (Csv \<lparr>header = ''Date,Open,High,Low,Close,10_SMA'',
                       rows = map (\<lambda>i. [index d ! i, op ! i, hi ! i, lo ! i, cl ! i, sma ! i])
                                [0..<length (index d)]\<rparr>)
                 (print (''Saving data to '' @ fn @ ''...'') w)))"
  using assms
  by (simp add: process_and_save_data_def select_columns_def reset_index_def to_csv_def Let_def)

lemma process_and_save_data_missing:
  assumes "map_of (columns d) ''Open'' = Some op" and "map_of (columns d) ''High'' = Some hi"
    and "map_of (columns d) ''Low'' = Some lo" and "map_of (columns d) ''Close'' = Some cl"
    and "map_of (columns d) ''10_SMA'' = None"
  shows "process_and_save_data e d fn w
           = (Inl (KeyError (''['' @ py_repr ''10_SMA'' @ ''] not in index'')), w)"
  using assms
  by (simp add: process_and_save_data_def select_columns_def)

lemma visualize_data_ok:
  assumes "map_of (columns d) ''Close'' = Some cl" and "map_of (columns d) ''10_SMA'' = Some sma"
    and "savefig_raises e = None"
  shows "visualize_data e d ticker w =
           (Inr (),
            print (''Plot saved as '' @ lower ticker @ ''_chart.png'' @ ''!'')
              (write_file (lower ticker @ ''_chart.png'') Png
                 (print ''Creating visualization...'' w)))"
  using assms by (simp add: visualize_data_def getitem_def Let_def)


lemma files_print [simp]: "files (print line w) = files w"
  by (simp add: print_def)

lemma files_write_file [simp]: "files (write_file name f w) = (files w)(name \<mapsto> f)"
  by (simp add: write_file_def)

lemma analysis_calculate_sma_eq:
  "analysis_calculate_sma df w wd
     = (data_calculate_sma df w, print (''Calculating '' @ str_int w @ ''-day SMA...'') wd)"
  by (simp add: analysis_calculate_sma_def data_calculate_sma_def Let_def split: sum.splits)

lemma minus_days_365: "minus_days (Rep_clock_day c) 365 = Inr (Rep_clock_day c - 365)"
  using Rep_clock_day [of c] by (simp add: minus_days_def)

lemma analysis_fetch_ok:
  assumes "yf_download e = Inr df" and "\<not> empty_frame df"
  shows "analysis_fetch_stock_data e tk 365 w
           = (Inr df, print ''Data fetched successfully!''
                (print (''Fetching '' @ str_int 365 @ '' days of historical data for ''
                          @ tk @ ''...'') w))"
  using assms by (simp add: analysis_fetch_stock_data_def Let_def minus_days_365)

lemma analysis_steps_price_frame:
  assumes op: "map_of (columns df) ''Open'' = Some op"
    and hi: "map_of (columns df) ''High'' = Some hi"
    and lo: "map_of (columns df) ''Low'' = Some lo"
    and cl: "map_of (columns df) ''Close'' = Some (map Num closes)"
    and name: "index_name df = Some ''Date''"
    and dl: "yf_download e = Inr df" and ne: "\<not> empty_frame df"
    and csv: "to_csv_raises e = None"
  shows "\<exists>w3. analysis_steps tk 10 365 fn e w
                = visualize_data e
                    (setitem df ''10_SMA'' (map of_float (roll_mean (map Some closes) 10 10)))
                    tk w3 \<and>
              files w3 = (files w)(fn \<mapsto>
                Csv \<lparr>header = ''Date,Open,High,Low,Close,10_SMA'',
                      rows = map (\<lambda>i. [index df ! i, op ! i, hi ! i, lo ! i, map Num closes ! i,
                                        map of_float (roll_mean (map Some closes) 10 10) ! i])
                               [0..<length (index df)]\<rparr>)"
proof -
  let ?sma = "map of_float (roll_mean (map Some closes) 10 10)"
  let ?d = "setitem df ''10_SMA'' ?sma"
  have sma: "data_calculate_sma df 10 = Inr ?d"
    using data_calculate_sma_ok [OF cl, of 10] by (simp add: numeric_map_Num sma_name_10 comp_def)
  have cols: "map_of (columns ?d) ''Open'' = Some op" "map_of (columns ?d) ''High'' = Some hi"
    "map_of (columns ?d) ''Low'' = Some lo" "map_of (columns ?d) ''Close'' = Some (map Num closes)"
    "map_of (columns ?d) ''10_SMA'' = Some ?sma"
    using op hi lo cl by (simp_all add: setitem_def map_of_set_column_other map_of_set_column_same)
  have idx: "index_name ?d = Some ''Date''" "index ?d = index df"
    using name by (simp_all add: setitem_def)
  note save = process_and_save_data_ok [OF cols idx(1) csv]
  let ?w2 = "print (''Calculating '' @ str_int 10 @ ''-day SMA...'')
               (print ''Data fetched successfully!''
                 (print (''Fetching '' @ str_int 365 @ '' days of historical data for ''
                           @ tk @ ''...'') w))"
  have "analysis_steps tk 10 365 fn e w
          = visualize_data e ?d tk (snd (process_and_save_data e ?d fn ?w2))"
    by (simp add: analysis_steps_def analysis_fetch_ok [OF dl ne] analysis_calculate_sma_eq
          sma save)
  moreover have "files (snd (process_and_save_data e ?d fn ?w2)) = (files w)(fn \<mapsto>
           Csv \<lparr>header = ''Date,Open,High,Low,Close,10_SMA'',
                 rows = map (\<lambda>i. [index df ! i, op ! i, hi ! i, lo ! i, map Num closes ! i, ?sma ! i])
                          [0..<length (index df)]\<rparr>)"
    by (simp add: save idx(2))
  ultimately show ?thesis
    by blast
qed

lemma data_run_price_frame:
  assumes op: "map_of (columns df) ''Open'' = Some op"
    and hi: "map_of (columns df) ''High'' = Some hi"
    and lo: "map_of (columns df) ''Low'' = Some lo"
    and cl: "map_of (columns df) ''Close'' = Some (map Num closes)"
    and name: "index_name df = Some ''Date''"
    and nodate: "''Date'' \<notin> set (map fst (columns df))"
    and dl: "yf_download e = Inr df" and ne: "\<not> empty_frame df"
    and csv: "to_csv_raises e = None"
  shows "\<exists>w2. data_run tk 10 e w
                = (case savefig_raises e of
                     Some x \<Rightarrow> (Uncaught x, w2)
                   | None \<Rightarrow> (Returned, print ''Plot saved as apple_chart.png''
                                          (write_file ''apple_chart.png'' Png w2))) \<and>
              files w2 = (files w)(''apple_stock_data.csv'' \<mapsto>
                Csv \<lparr>header = ''Date,Open,High,Low,Close,10_SMA'',
                      rows = map (\<lambda>i. [index df ! i, op ! i, hi ! i, lo ! i, map Num closes ! i,
                                        map of_float (roll_mean (map Some closes) 10 10) ! i])
                               [0..<length (index df)]\<rparr>)"
proof -
  let ?sma = "map of_float (roll_mean (map Some closes) 10 10)"
  let ?d = "setitem df ''10_SMA'' ?sma"
  have sma: "data_calculate_sma df 10 = Inr ?d"
    using data_calculate_sma_ok [OF cl, of 10] by (simp add: numeric_map_Num sma_name_10 comp_def)
  have cols: "map_of (columns ?d) ''Open'' = Some op" "map_of (columns ?d) ''High'' = Some hi"
    "map_of (columns ?d) ''Low'' = Some lo" "map_of (columns ?d) ''Close'' = Some (map Num closes)"
    "map_of (columns ?d) ''10_SMA'' = Some ?sma"
    using op hi lo cl by (simp_all add: setitem_def map_of_set_column_other map_of_set_column_same)
  have idx: "index_name ?d = Some ''Date''" "index ?d = index df"
    using name by (simp_all add: setitem_def)
  have "''Date'' \<notin> set (map fst (columns ?d))"
    using nodate by (simp add: setitem_def names_set_column)
  then have reset: "reset_index ?d
      = Inr \<lparr>index_name = None, index = map (\<lambda>i. Int64 (int i)) [0..<length (index df)],
              columns = (''Date'', index df) # columns ?d\<rparr>"
    using idx by (simp add: reset_index_def Let_def)
  let ?csv = "\<lparr>header = ''Date,Open,High,Low,Close,10_SMA'',
               rows = map (\<lambda>i. [index df ! i, op ! i, hi ! i, lo ! i, map Num closes ! i, ?sma ! i])
                        [0..<length (index df)]\<rparr>"
  let ?w1 = "print (''Fetching data for '' @ tk @ '' from '' @ isoformat e (Rep_clock_day (today e) - 365)
                        @ '' to '' @ isoformat e (Rep_clock_day (today e)) @ ''...'') w"
  let ?w2 = "print ''Data saved to apple_stock_data.csv''
               (write_file ''apple_stock_data.csv'' (Csv ?csv) ?w1)"
  have "data_run tk 10 e w
          = (case savefig_raises e of
               Some x \<Rightarrow> (Uncaught x, ?w2)
             | None \<Rightarrow> (Returned, print ''Plot saved as apple_chart.png''
                                    (write_file ''apple_chart.png'' Png ?w2)))"
    using dl ne csv cols
    by (simp add: data_run_def minus_days_365 data_fetch_stock_data_def sma reset select_columns_def
          sma_name_10 save_to_csv_def to_csv_def plot_data_def getitem_def Let_def
          split: option.splits)
  moreover have "files ?w2 = (files w)(''apple_stock_data.csv'' \<mapsto> Csv ?csv)"
    by simp
  ultimately show ?thesis
    by blast
qed

lemma visualize_data_keeps_csv:
  "files (snd (visualize_data e d tk w)) ''apple_stock_data.csv'' = files w ''apple_stock_data.csv''"
proof -
  have "last (lower tk @ ''_chart.png'') \<noteq> last ''apple_stock_data.csv''"
    by simp
  then have "lower tk @ ''_chart.png'' \<noteq> ''apple_stock_data.csv''"
    by metis
  then show ?thesis
    by (simp add: visualize_data_def Let_def split: sum.splits option.splits)
qed

section \<open>The output file and the exit status\<close>

lemma sma10_nan_iff:
  assumes "i < length closes"
  shows "(map of_float (roll_mean (map Some closes) 10 10) ! i = NaN) = (i < 9)"
proof (cases "i < 9")
  case True
  with assms have "roll_mean (map Some closes) 10 10 ! i = None"
    by (intro roll_mean_prefix) simp_all
  with assms True show ?thesis
    by (simp add: length_roll_mean)
next
  case False
  with assms have "roll_mean (map Some closes) 10 10 ! i
      = Some (mean (closes_range closes (Suc i - 10) i))"
    by (intro roll_mean_window_mean) simp_all
  with assms False show ?thesis
    by (simp add: length_roll_mean)
qed

lemma analysis_main_files:
  "files (snd (analysis_main e w))
     = files (snd (analysis_steps ''AAPL'' 10 365 ''apple_stock_data.csv'' e w))"
  by (simp add: analysis_main_def analysis_run_def split: prod.splits sum.splits)

text \<open>
  Claim C7. For a fetched price series (a frame of the data source with numeric closing
  prices and at least one row) and a CSV file that can be written, both scripts write the
  same file \<^verbatim>\<open>apple_stock_data.csv\<close>: its header is \<^verbatim>\<open>Date,Open,High,Low,Close,10_SMA\<close>, it
  has one row for each trading day, the dates stand in the order of the fetched index,
  which is ascending, and the \<^verbatim>\<open>10_SMA\<close> cell of a row is the empty NaN cell exactly in
  the rows before the tenth.
\<close>

theorem csv_file_written:
  assumes "price_frame df" and "yf_download e = Inr df" and "\<not> empty_frame df"
    and "to_csv_raises e = None"
  shows "\<exists>f. files (snd (analysis_main e w)) ''apple_stock_data.csv'' = Some (Csv f) \<and>
             files (snd (data_main e w)) ''apple_stock_data.csv'' = Some (Csv f) \<and>
             header f = ''Date,Open,High,Low,Close,10_SMA'' \<and>
             length (rows f) = length (index df) \<and>
             map (\<lambda>r. r ! 0) (rows f) = index df \<and>
             sorted_wrt (<) (map (\<lambda>r. day_of (r ! 0)) (rows f)) \<and>
             (\<forall>i < length (rows f). length (rows f ! i) = 6 \<and> (rows f ! i ! 5 = NaN) = (i < 9))"
proof -
  from assms(1) obtain op where op: "map_of (columns df) ''Open'' = Some op"
    by (rule price_frame_column [where n = "''Open''"]) simp_all
  from assms(1) obtain hi where hi: "map_of (columns df) ''High'' = Some hi"
    by (rule price_frame_column [where n = "''High''"]) simp_all
  from assms(1) obtain lo where lo: "map_of (columns df) ''Low'' = Some lo"
    by (rule price_frame_column [where n = "''Low''"]) simp_all
  from assms(1) obtain closes where cl: "map_of (columns df) ''Close'' = Some (map Num closes)"
    and len: "length closes = length (index df)"
    by (rule price_frame_close)
  from assms(1) have name: "index_name df = Some ''Date''"
    and asc: "sorted_wrt (<) (map day_of (index df))"
    by (simp_all add: price_frame_def)
  from assms(1) have nodate: "''Date'' \<notin> set (map fst (columns df))"
    by (rule price_frame_other_names) simp
  let ?sma = "map of_float (roll_mean (map Some closes) 10 10)"
  let ?row = "\<lambda>i. [index df ! i, op ! i, hi ! i, lo ! i, map Num closes ! i, ?sma ! i]"
  let ?f = "\<lparr>header = ''Date,Open,High,Low,Close,10_SMA'',
             rows = map ?row [0..<length (index df)]\<rparr>"
  from analysis_steps_price_frame [OF op hi lo cl name assms(2,3,4),
      of "''AAPL''" "''apple_stock_data.csv''" w]
  have a: "files (snd (analysis_main e w)) ''apple_stock_data.csv'' = Some (Csv ?f)"
    by (auto simp: analysis_main_files visualize_data_keeps_csv)
  from data_run_price_frame [OF op hi lo cl name nodate assms(2,3,4), of "''AAPL''" w]
  have b: "files (snd (data_main e w)) ''apple_stock_data.csv'' = Some (Csv ?f)"
    by (auto simp: data_main_def split: option.splits)
  have dates: "map (\<lambda>r. r ! 0) (rows ?f) = index df"
    by (simp add: comp_def map_nth)
  have c: "sorted_wrt (<) (map (\<lambda>r. day_of (r ! 0)) (rows ?f))"
  proof -
    have "map (\<lambda>r. day_of (r ! 0)) (rows ?f) = map day_of (map (\<lambda>r. r ! 0) (rows ?f))"
      by (simp only: map_map comp_def)
    with asc show ?thesis
      by (simp only: dates)
  qed
  have d: "\<forall>i < length (rows ?f). length (rows ?f ! i) = 6 \<and> (rows ?f ! i ! 5 = NaN) = (i < 9)"
    using len by (simp add: sma10_nan_iff)
  have "header ?f = ''Date,Open,High,Low,Close,10_SMA''" and "length (rows ?f) = length (index df)"
    by simp_all
  with a b dates c d show ?thesis
    by blast
qed


lemma example_frame_price: "price_frame example_frame"
  by (simp add: price_frame_def example_frame_def aligned_def)

lemma example_frame_rows: "\<not> empty_frame example_frame"
  by (simp add: empty_frame_def example_frame_def)

theorem csv_file_written_witness:
  "\<exists>f. files (snd (analysis_main example_env world0)) ''apple_stock_data.csv'' = Some (Csv f) \<and>
       files (snd (data_main example_env world0)) ''apple_stock_data.csv'' = Some (Csv f) \<and>
       header f = ''Date,Open,High,Low,Close,10_SMA'' \<and>
       length (rows f) = length (index example_frame) \<and>
       map (\<lambda>r. r ! 0) (rows f) = index example_frame \<and>
       sorted_wrt (<) (map (\<lambda>r. day_of (r ! 0)) (rows f)) \<and>
       (\<forall>i < length (rows f). length (rows f ! i) = 6 \<and> (rows f ! i ! 5 = NaN) = (i < 9))"
proof -
  have dl: "yf_download example_env = Inr example_frame"
    and csv: "to_csv_raises example_env = None"
    by (simp_all add: example_env_def)
  show ?thesis
    by (rule csv_file_written [OF example_frame_price dl example_frame_rows csv])
qed

lemma data_main_fetch_fails:
  assumes "fetch_fails e"
  shows "fst (data_main e w) = SystemExit 1"
proof (cases "yf_download e")
  case (Inl x)
  then show ?thesis
    by (simp add: data_main_def data_run_def minus_days_365 data_fetch_stock_data_def Let_def)
next
  case (Inr d)
  with assms have "empty_frame d"
    by (simp add: fetch_fails_def)
  with Inr show ?thesis
    by (simp add: data_main_def data_run_def minus_days_365 data_fetch_stock_data_def Let_def)
qed

lemma data_main_after_fetch:
  assumes "\<not> fetch_fails e"
  shows "fst (data_main e w) = Returned \<or> (\<exists>x. fst (data_main e w) = Uncaught x)"
proof -
  from assms obtain d where "yf_download e = Inr d" and "\<not> empty_frame d"
    by (cases "yf_download e") (simp_all add: fetch_fails_def)
  then show ?thesis
    by (simp add: data_main_def data_run_def minus_days_365 data_fetch_stock_data_def Let_def
          split: sum.splits prod.splits)
qed

lemma data_main_fetch_message:
  assumes "fetch_fails e"
  shows "last (printed (snd (data_main e w)))
           = (case yf_download e of
                Inl x \<Rightarrow> ''Error fetching data for AAPL: '' @ str_exn x
              | Inr d \<Rightarrow> ''No data found for ticker AAPL in the given date range.'')"
proof (cases "yf_download e")
  case (Inl x)
  then show ?thesis
    by (simp add: data_main_def data_run_def minus_days_365 data_fetch_stock_data_def Let_def print_def)
next
  case (Inr d)
  with assms have "empty_frame d"
    by (simp add: fetch_fails_def)
  with Inr show ?thesis
    by (simp add: data_main_def data_run_def minus_days_365 data_fetch_stock_data_def Let_def print_def)
qed

lemma analysis_steps_fetch_fails:
  assumes "fetch_fails e"
  shows "\<exists>x. fst (analysis_steps tk sw days fn e w) = Inl x"
  using assms
  by (auto simp: fetch_fails_def analysis_steps_def analysis_fetch_stock_data_def Let_def
        split: sum.splits)


lemma analysis_main_eq:
  "analysis_main e w =
     (case analysis_steps ''AAPL'' 10 365 ''apple_stock_data.csv'' e w of
        (Inr u, w1) \<Rightarrow> (Returned, w1)
      | (Inl x, w1) \<Rightarrow> (Returned, print (''An error occurred: '' @ str_exn x) w1))"
  by (simp add: analysis_main_def analysis_run_def)

lemma analysis_steps_success:
  assumes pf: "price_frame df" and dl: "yf_download e = Inr df" and ne: "\<not> empty_frame df"
    and csv: "to_csv_raises e = None" and fig: "savefig_raises e = None"
  shows "fst (analysis_steps tk 10 365 fn e w) = Inr ()"
proof -
  from pf obtain op where op: "map_of (columns df) ''Open'' = Some op"
    by (rule price_frame_column [where n = "''Open''"]) simp_all
  from pf obtain hi where hi: "map_of (columns df) ''High'' = Some hi"
    by (rule price_frame_column [where n = "''High''"]) simp_all
  from pf obtain lo where lo: "map_of (columns df) ''Low'' = Some lo"
    by (rule price_frame_column [where n = "''Low''"]) simp_all
  from pf obtain closes where cl: "map_of (columns df) ''Close'' = Some (map Num closes)"
    by (rule price_frame_close)
  from pf have name: "index_name df = Some ''Date''"
    by (simp add: price_frame_def)
  let ?d = "setitem df ''10_SMA'' (map of_float (roll_mean (map Some closes) 10 10))"
  have "map_of (columns ?d) ''Close'' = Some (map Num closes)"
    using cl by (simp add: setitem_def map_of_set_column_other)
  moreover have "map_of (columns ?d) ''10_SMA''
      = Some (map of_float (roll_mean (map Some closes) 10 10))"
    by (simp add: setitem_def map_of_set_column_same)
  ultimately have "fst (visualize_data e ?d tk w3) = Inr ()" for w3
    using fig by (simp add: visualize_data_ok)
  with analysis_steps_price_frame [OF op hi lo cl name dl ne csv, of tk fn w]
  show ?thesis
    by auto
qed

lemma data_main_success:
  assumes pf: "price_frame df" and dl: "yf_download e = Inr df" and ne: "\<not> empty_frame df"
    and csv: "to_csv_raises e = None" and fig: "savefig_raises e = None"
  shows "fst (data_main e w) = Returned"
proof -
  from pf obtain op where op: "map_of (columns df) ''Open'' = Some op"
    by (rule price_frame_column [where n = "''Open''"]) simp_all
  from pf obtain hi where hi: "map_of (columns df) ''High'' = Some hi"
    by (rule price_frame_column [where n = "''High''"]) simp_all
  from pf obtain lo where lo: "map_of (columns df) ''Low'' = Some lo"
    by (rule price_frame_column [where n = "''Low''"]) simp_all
  from pf obtain closes where cl: "map_of (columns df) ''Close'' = Some (map Num closes)"
    by (rule price_frame_close)
  from pf have name: "index_name df = Some ''Date''"
    by (simp add: price_frame_def)
  from pf have nodate: "''Date'' \<notin> set (map fst (columns df))"
    by (rule price_frame_other_names) simp
  from data_run_price_frame [OF op hi lo cl name nodate dl ne csv, of "''AAPL''" w] fig
  show ?thesis
    by (auto simp: data_main_def)
qed

text \<open>
  Claim C8, as the code has it. \<^verbatim>\<open>apple_stock_analysis.py\<close> returns normally, with exit
  status 0, on every run; when a step raises, the fetch step included (no data, or an
  exception of the download), its last line is \<^verbatim>\<open>An error occurred: ...\<close>.
  \<^verbatim>\<open>apple_stock_data.py\<close> prints a message and ends through \<^verbatim>\<open>sys.exit(1)\<close> when the fetch
  step fails; after a fetch that succeeded it either returns or ends with an exception
  that nothing catches, with status 1. On a fetched price series, with the CSV file and
  the chart written, both scripts succeed and the status is 0.
\<close>

theorem exit_status_per_script:
  "fst (analysis_main e w) = Returned \<and> exit_status (fst (analysis_main e w)) = 0 \<and>
   (\<forall>x w1. analysis_steps ''AAPL'' 10 365 ''apple_stock_data.csv'' e w = (Inl x, w1) \<longrightarrow>
      snd (analysis_main e w) = print (''An error occurred: '' @ str_exn x) w1) \<and>
   (fetch_fails e \<longrightarrow>
      (\<exists>x. fst (analysis_steps ''AAPL'' 10 365 ''apple_stock_data.csv'' e w) = Inl x) \<and>
      fst (data_main e w) = SystemExit 1 \<and> exit_status (fst (data_main e w)) = 1 \<and>
      last (printed (snd (data_main e w)))
        = (case yf_download e of
             Inl x \<Rightarrow> ''Error fetching data for AAPL: '' @ str_exn x
           | Inr d \<Rightarrow> ''No data found for ticker AAPL in the given date range.'')) \<and>
   (\<not> fetch_fails e \<longrightarrow>
      fst (data_main e w) = Returned \<or>
      (\<exists>x. fst (data_main e w) = Uncaught x) \<and> exit_status (fst (data_main e w)) = 1) \<and>
   (yf_download e = Inr df \<and> price_frame df \<and> \<not> empty_frame df \<and>
    to_csv_raises e = None \<and> savefig_raises e = None \<longrightarrow>
      fst (analysis_steps ''AAPL'' 10 365 ''apple_stock_data.csv'' e w) = Inr () \<and>
      fst (data_main e w) = Returned \<and> exit_status (fst (data_main e w)) = 0)"
proof -
  have a: "fst (analysis_main e w) = Returned"
    by (simp add: analysis_main_eq split: prod.splits sum.splits)
  have b: "\<forall>x w1. analysis_steps ''AAPL'' 10 365 ''apple_stock_data.csv'' e w = (Inl x, w1) \<longrightarrow>
      snd (analysis_main e w) = print (''An error occurred: '' @ str_exn x) w1"
    by (simp add: analysis_main_eq)
  have c: "fetch_fails e \<longrightarrow>
      (\<exists>x. fst (analysis_steps ''AAPL'' 10 365 ''apple_stock_data.csv'' e w) = Inl x) \<and>
      fst (data_main e w) = SystemExit 1 \<and> exit_status (fst (data_main e w)) = 1 \<and>
      last (printed (snd (data_main e w)))
        = (case yf_download e of
             Inl x \<Rightarrow> ''Error fetching data for AAPL: '' @ str_exn x
           | Inr d \<Rightarrow> ''No data found for ticker AAPL in the given date range.'')"
    by (simp add: analysis_steps_fetch_fails data_main_fetch_fails data_main_fetch_message)
  have d: "\<not> fetch_fails e \<longrightarrow>
      fst (data_main e w) = Returned \<or>
      (\<exists>x. fst (data_main e w) = Uncaught x) \<and> exit_status (fst (data_main e w)) = 1"
    using data_main_after_fetch [of e w] by auto
  have f: "yf_download e = Inr df \<and> price_frame df \<and> \<not> empty_frame df \<and>
    to_csv_raises e = None \<and> savefig_raises e = None \<longrightarrow>
      fst (analysis_steps ''AAPL'' 10 365 ''apple_stock_data.csv'' e w) = Inr () \<and>
      fst (data_main e w) = Returned \<and> exit_status (fst (data_main e w)) = 0"
  proof (intro impI, elim conjE)
    assume ok: "yf_download e = Inr df" "price_frame df" "\<not> empty_frame df"
      "to_csv_raises e = None" "savefig_raises e = None"
    have "fst (analysis_steps ''AAPL'' 10 365 ''apple_stock_data.csv'' e w) = Inr ()"
      using ok(2,1,3,4,5) by (rule analysis_steps_success)
    moreover have "fst (data_main e w) = Returned"
      using ok(2,1,3,4,5) by (rule data_main_success)
    ultimately show "fst (analysis_steps ''AAPL'' 10 365 ''apple_stock_data.csv'' e w) = Inr () \<and>
      fst (data_main e w) = Returned \<and> exit_status (fst (data_main e w)) = 0"
      by simp
  qed
  from a b c d f show ?thesis
    by (simp only: exit_status.simps simp_thms)
qed


lemma data_main_csv_raises:
  assumes pf: "price_frame df" and dl: "yf_download e = Inr df" and ne: "\<not> empty_frame df"
    and csv: "to_csv_raises e = Some x"
  shows "fst (data_main e w) = Uncaught x"
proof -
  from pf obtain op where op: "map_of (columns df) ''Open'' = Some op"
    by (rule price_frame_column [where n = "''Open''"]) simp_all
  from pf obtain hi where hi: "map_of (columns df) ''High'' = Some hi"
    by (rule price_frame_column [where n = "''High''"]) simp_all
  from pf obtain lo where lo: "map_of (columns df) ''Low'' = Some lo"
    by (rule price_frame_column [where n = "''Low''"]) simp_all
  from pf obtain closes where cl: "map_of (columns df) ''Close'' = Some (map Num closes)"
    by (rule price_frame_close)
  from pf have name: "index_name df = Some ''Date''"
    by (simp add: price_frame_def)
  from pf have nodate: "''Date'' \<notin> set (map fst (columns df))"
    by (rule price_frame_other_names) simp
  let ?sma = "map of_float (roll_mean (map Some closes) 10 10)"
  let ?d = "setitem df ''10_SMA'' ?sma"
  have sma: "data_calculate_sma df 10 = Inr ?d"
    using data_calculate_sma_ok [OF cl, of 10] by (simp add: numeric_map_Num sma_name_10 comp_def)
  have cols: "map_of (columns ?d) ''Open'' = Some op" "map_of (columns ?d) ''High'' = Some hi"
    "map_of (columns ?d) ''Low'' = Some lo" "map_of (columns ?d) ''Close'' = Some (map Num closes)"
    "map_of (columns ?d) ''10_SMA'' = Some ?sma"
    using op hi lo cl by (simp_all add: setitem_def map_of_set_column_other map_of_set_column_same)
  have idx: "index_name ?d = Some ''Date''" "index ?d = index df"
    using name by (simp_all add: setitem_def)
  have "''Date'' \<notin> set (map fst (columns ?d))"
    using nodate by (simp add: setitem_def names_set_column)
  then have reset: "reset_index ?d
      = Inr \<lparr>index_name = None, index = map (\<lambda>i. Int64 (int i)) [0..<length (index df)],
              columns = (''Date'', index df) # columns ?d\<rparr>"
    using idx by (simp add: reset_index_def Let_def)
  show ?thesis
    using dl ne csv cols
    by (simp add: data_main_def data_run_def minus_days_365 data_fetch_stock_data_def sma reset
          select_columns_def sma_name_10 save_to_csv_def Let_def)
qed

lemma no_data_fetch_fails: "fetch_fails no_data_env"
  by (simp add: fetch_fails_def no_data_env_def example_env_def no_rows_def empty_frame_def)

lemma analysis_steps_no_data:
  "analysis_steps ''AAPL'' 10 365 ''apple_stock_data.csv'' no_data_env world0
     = (Inl (ValueError ''No data found for ticker AAPL''),
        print ''Fetching 365 days of historical data for AAPL...'' world0)"
  by (simp add: analysis_steps_def analysis_fetch_stock_data_def minus_days_365 no_data_env_def
        example_env_def no_rows_def empty_frame_def Let_def str_int_def digit_char_def)

theorem exit_status_per_script_witness:
  "fst (analysis_steps ''AAPL'' 10 365 ''apple_stock_data.csv'' example_env world0) = Inr () \<and>
   exit_status (fst (data_main example_env world0)) = 0 \<and>
   exit_status (fst (data_main no_data_env world0)) = 1 \<and>
   last (printed (snd (data_main no_data_env world0)))
     = ''No data found for ticker AAPL in the given date range.'' \<and>
   snd (analysis_main no_data_env world0)
     = print ''An error occurred: No data found for ticker AAPL''
         (print ''Fetching 365 days of historical data for AAPL...'' world0)"
proof -
  have ok: "yf_download example_env = Inr example_frame \<and> price_frame example_frame \<and>
      \<not> empty_frame example_frame \<and> to_csv_raises example_env = None \<and>
      savefig_raises example_env = None"
    by (simp add: example_env_def example_frame_price example_frame_rows)
  from exit_status_per_script [of example_env world0 example_frame] ok
  have "fst (analysis_steps ''AAPL'' 10 365 ''apple_stock_data.csv'' example_env world0) = Inr ()"
    and "exit_status (fst (data_main example_env world0)) = 0"
    by blast+
  moreover from exit_status_per_script [of no_data_env world0 no_rows] no_data_fetch_fails
  have "exit_status (fst (data_main no_data_env world0)) = 1"
    and "last (printed (snd (data_main no_data_env world0)))
           = (case yf_download no_data_env of
                Inl x \<Rightarrow> ''Error fetching data for AAPL: '' @ str_exn x
              | Inr d \<Rightarrow> ''No data found for ticker AAPL in the given date range.'')"
    by blast+
  moreover from exit_status_per_script [of no_data_env world0 no_rows] analysis_steps_no_data
  have "snd (analysis_main no_data_env world0)
     = print (''An error occurred: '' @ str_exn (ValueError ''No data found for ticker AAPL''))
         (print ''Fetching 365 days of historical data for AAPL...'' world0)"
    by blast
  ultimately show ?thesis
    by (simp add: no_data_env_def example_env_def)
qed

text \<open>
  Claim C8 as stated fails for each script. With no data from the source the fetch step
  of \<^verbatim>\<open>apple_stock_analysis.py\<close> fails and the exit status is 0, not a non-zero one. With
  a CSV file that cannot be written, an error that is not a fetch failure,
  \<^verbatim>\<open>apple_stock_data.py\<close> does not return normally: the OSError is not caught and the
  status is 1.
\<close>

theorem exit_status_counterexample:
  "fetch_fails no_data_env \<and>
   exit_status (fst (analysis_main no_data_env world0)) = 0 \<and>
   \<not> fetch_fails unwritable_env \<and>
   fst (data_main unwritable_env world0) = Uncaught (OSError ''Permission denied'') \<and>
   exit_status (fst (data_main unwritable_env world0)) = 1"
proof -
  have "exit_status (fst (analysis_main no_data_env world0)) = 0"
    by (simp add: analysis_main_eq analysis_steps_no_data)
  moreover have "\<not> fetch_fails unwritable_env"
    by (simp add: fetch_fails_def unwritable_env_def example_env_def example_frame_rows)
  moreover have "fst (data_main unwritable_env world0) = Uncaught (OSError ''Permission denied'')"
    by (rule data_main_csv_raises [OF example_frame_price _ example_frame_rows])
      (simp_all add: unwritable_env_def example_env_def)
  ultimately show ?thesis
    using no_data_fetch_fails by simp
qed

text \<open>
  Claim C10, as the code has it. In \<^verbatim>\<open>apple_stock_analysis.py\<close>, on a fetched price
  series and a window other than 10: for a window \<open>w\<close> from 0 to below \<open>2^63\<close>
  \<^verbatim>\<open>calculate_sma\<close> returns a frame, the save step \<^verbatim>\<open>process_and_save_data\<close> fails on
  it with the KeyError of the missing column \<^verbatim>\<open>10_SMA\<close>, and that is the error of the
  pipeline; for \<open>w < 0\<close> and for \<open>w \<ge> 2^63\<close> the pipeline fails before, in
  \<^verbatim>\<open>calculate_sma\<close>, with the ValueError or the OverflowError of the library, and the
  save step is not reached. So the pipeline never succeeds with a window other than 10.
\<close>

theorem hard_coded_sma_column:
  assumes pf: "price_frame df" and dl: "yf_download e = Inr df" and ne: "\<not> empty_frame df"
    and w: "w \<noteq> 10"
  shows "(0 \<le> w \<and> w < 9223372036854775808 \<longrightarrow>
            (\<exists>d. fst (analysis_calculate_sma df w wd) = Inr d \<and>
                 fst (process_and_save_data e d fn wd')
                   = Inl (KeyError (''['' @ py_repr ''10_SMA'' @ ''] not in index''))) \<and>
            fst (analysis_steps tk w 365 fn e wd)
              = Inl (KeyError (''['' @ py_repr ''10_SMA'' @ ''] not in index''))) \<and>
         (w < 0 \<longrightarrow>
            fst (analysis_calculate_sma df w wd)
              = Inl (ValueError ''window must be an integer 0 or greater'') \<and>
            fst (analysis_steps tk w 365 fn e wd)
              = Inl (ValueError ''window must be an integer 0 or greater'')) \<and>
         (9223372036854775808 \<le> w \<longrightarrow>
            fst (analysis_calculate_sma df w wd)
              = Inl (OverflowError ''Python int too large to convert to C long'') \<and>
            fst (analysis_steps tk w 365 fn e wd)
              = Inl (OverflowError ''Python int too large to convert to C long'')) \<and>
         fst (analysis_steps tk w 365 fn e wd) \<noteq> Inr ()"
proof -
  from pf obtain op where op: "map_of (columns df) ''Open'' = Some op"
    by (rule price_frame_column [where n = "''Open''"]) simp_all
  from pf obtain hi where hi: "map_of (columns df) ''High'' = Some hi"
    by (rule price_frame_column [where n = "''High''"]) simp_all
  from pf obtain lo where lo: "map_of (columns df) ''Low'' = Some lo"
    by (rule price_frame_column [where n = "''Low''"]) simp_all
  from pf obtain closes where cl: "map_of (columns df) ''Close'' = Some (map Num closes)"
    and len: "length closes = length (index df)"
    by (rule price_frame_close)
  from pf have none: "map_of (columns df) ''10_SMA'' = None"
    by (rule price_frame_other_names) simp
  from ne len have rows: "map Num closes \<noteq> []"
    by (auto simp: empty_frame_def)
  from w have other: "''10_SMA'' \<noteq> sma_name w"
    using sma_name_ten [of w] by auto
  let ?err = "KeyError (''['' @ py_repr ''10_SMA'' @ ''] not in index'')"
  let ?low = "ValueError ''window must be an integer 0 or greater''"
  let ?high = "OverflowError ''Python int too large to convert to C long''"
  have neg: "fst (analysis_calculate_sma df w wd) = Inl ?low \<and>
             fst (analysis_steps tk w 365 fn e wd) = Inl ?low" if "w < 0"
  proof -
    from that cl have "data_calculate_sma df w = Inl ?low"
      by (simp add: data_calculate_sma_def getitem_def rolling_mean_def)
    then show ?thesis
      by (simp add: analysis_steps_def analysis_fetch_ok [OF dl ne] analysis_calculate_sma_eq)
  qed
  have big: "fst (analysis_calculate_sma df w wd) = Inl ?high \<and>
             fst (analysis_steps tk w 365 fn e wd) = Inl ?high" if "9223372036854775808 \<le> w"
  proof -
    from cl numeric_map_Num rows that have "data_calculate_sma df w = Inl ?high"
      by (rule data_calculate_sma_overflow)
    then show ?thesis
      by (simp add: analysis_steps_def analysis_fetch_ok [OF dl ne] analysis_calculate_sma_eq)
  qed
  have mid: "(\<exists>d. fst (analysis_calculate_sma df w wd) = Inr d \<and>
                 fst (process_and_save_data e d fn wd') = Inl ?err) \<and>
             fst (analysis_steps tk w 365 fn e wd) = Inl ?err"
    if "0 \<le> w" and "w < 9223372036854775808"
  proof -
    define d where "d = setitem df (sma_name w)
                (map of_float (roll_mean (map as_float (map Num closes)) (nat w) (nat w)))"
    have sma: "data_calculate_sma df w = Inr d"
      unfolding d_def using cl that by (intro data_calculate_sma_ok) (simp_all add: numeric_map_Num)
    have cols: "map_of (columns d) ''Open'' = Some op" "map_of (columns d) ''High'' = Some hi"
      "map_of (columns d) ''Low'' = Some lo" "map_of (columns d) ''Close'' = Some (map Num closes)"
      "map_of (columns d) ''10_SMA'' = None"
      using op hi lo cl none other sma_name_not_price [of w]
      by (simp_all add: d_def setitem_def map_of_set_column_other)
    note miss = process_and_save_data_missing [OF cols]
    have "fst (analysis_calculate_sma df w wd) = Inr d"
      by (simp only: analysis_calculate_sma_fst sma)
    moreover have "fst (process_and_save_data e d fn wd') = Inl ?err"
      by (simp only: miss fst_conv)
    moreover have "fst (analysis_steps tk w 365 fn e wd) = Inl ?err"
      by (simp add: analysis_steps_def analysis_fetch_ok [OF dl ne] analysis_calculate_sma_eq
            sma miss)
    ultimately show ?thesis
      by blast
  qed
  have "fst (analysis_steps tk w 365 fn e wd) \<noteq> Inr ()"
  proof (cases "w < 0")
    case True
    with neg show ?thesis by simp
  next
    case False
    show ?thesis
    proof (cases "w < 9223372036854775808")
      case True
      with False mid show ?thesis by simp
    next
      case False
      with big show ?thesis by simp
    qed
  qed
  with neg big mid show ?thesis
    by blast
qed

theorem hard_coded_sma_column_witness:
  "fst (analysis_steps ''AAPL'' 5 365 ''apple_stock_data.csv'' example_env world0)
     = Inl (KeyError (''['' @ py_repr ''10_SMA'' @ ''] not in index'')) \<and>
   fst (analysis_steps ''AAPL'' (- 1) 365 ''apple_stock_data.csv'' example_env world0)
     = Inl (ValueError ''window must be an integer 0 or greater'') \<and>
   fst (analysis_steps ''AAPL'' 9223372036854775808 365 ''apple_stock_data.csv'' example_env world0)
     = Inl (OverflowError ''Python int too large to convert to C long'')"
proof -
  have dl: "yf_download example_env = Inr example_frame"
    by (simp add: example_env_def)
  have "(5::int) \<noteq> 10" and "(- 1::int) \<noteq> 10" and "(9223372036854775808::int) \<noteq> 10"
    by simp_all
  from hard_coded_sma_column [OF example_frame_price dl example_frame_rows this(1)]
    hard_coded_sma_column [OF example_frame_price dl example_frame_rows this(2)]
    hard_coded_sma_column [OF example_frame_price dl example_frame_rows this(3)]
  show ?thesis
    by simp
qed

text \<open>
  Claim C10 as stated (for every window other than 10 it is the save step that fails,
  with a missing-column error) fails at the windows \<open>-1\<close> and \<open>2^63\<close>: there
  \<^verbatim>\<open>calculate_sma\<close> itself raises, a ValueError and an OverflowError, and these, not a
  KeyError of the save step, are the errors of the pipeline.
\<close>

theorem hard_coded_sma_column_counterexample:
  "fst (analysis_calculate_sma example_frame (- 1) world0)
     = Inl (ValueError ''window must be an integer 0 or greater'') \<and>
   fst (analysis_steps ''AAPL'' (- 1) 365 ''apple_stock_data.csv'' example_env world0)
     = Inl (ValueError ''window must be an integer 0 or greater'') \<and>
   fst (analysis_calculate_sma example_frame 9223372036854775808 world0)
     = Inl (OverflowError ''Python int too large to convert to C long'') \<and>
   fst (analysis_steps ''AAPL'' 9223372036854775808 365 ''apple_stock_data.csv''
          example_env world0)
     = Inl (OverflowError ''Python int too large to convert to C long'')"
proof -
  let ?close = "[Num 1, Num 2, Num 3, Num 4, Num 5, Num 6, Num 7, Num 8, Num 9, Num 10]"
  have dl: "yf_download example_env = Inr example_frame"
    by (simp add: example_env_def)
  have close: "map_of (columns example_frame) ''Close'' = Some ?close"
    by (simp add: example_frame_def)
  have low: "data_calculate_sma example_frame (- 1)
      = Inl (ValueError ''window must be an integer 0 or greater'')"
    using close by (simp add: data_calculate_sma_def getitem_def rolling_mean_def)
  have high: "data_calculate_sma example_frame 9223372036854775808
      = Inl (OverflowError ''Python int too large to convert to C long'')"
    using close by (rule data_calculate_sma_overflow) simp_all
  show ?thesis
    by (simp add: analysis_steps_def analysis_fetch_ok [OF dl example_frame_rows]
          analysis_calculate_sma_eq low high)
qed

end
